theory Spec2Isabelle
  imports Main "HOL-Library.Multiset"
begin

section \<open>The emoji generator: \<^verbatim>\<open>build/emoji/emoji_gen.mjs\<close>\<close>

text \<open>
  The script is one linear pipeline over the records of the emoji dataset: filter by the
  exclusion list, expand the skin variations, add the legacy aliases, append the built-in
  entry, sort, build the index tables and serialise. Each top-level statement of the script is
  one definition below, under the name the script gives the value.

  Conventions of the embedding.
  \<^item> A string of the script is a \<^typ>\<open>string\<close>. The dataset's names, categories, codepoints
    and file names are ASCII, and \<open>toLowerCase\<close> is modelled on the ASCII letters.
  \<^item> A dataset number (sort key, sheet coordinate) is an integer small enough to be exact
    as a double; sheet coordinates are grid positions, hence \<^typ>\<open>nat\<close>.
  \<^item> An object of the dataset is a record holding the properties the script reads or writes,
    an optional property being an \<^typ>\<open>'a option\<close>; the other properties, which the script
    never reads, are kept in order as pairs of a property name and the JSON text of its
    value. An entry of a skin-variation table has the properties of the dataset's entries:
    no names, no category and no sort key of its own.
  \<^item> An object used as a table (\<open>skin_variations\<close>, the category table) is the list of its
    entries in the order \<open>Object.keys\<close> enumerates them, each key occurring once. Table
    lookups (\<open>skinCodes[code]\<close>, \<open>short_name in additionalShortnames\<close>) are lookups of own
    keys: no short name or skin code of the dataset is the name of a member of
    \<open>Object.prototype\<close>.
  \<^item> A \<open>Map\<close> is an association list in insertion order; \<open>set\<close> on a key already present
    replaces the value where it stands.
\<close>

subsection \<open>String operations of the host language\<close>

text \<open>\<open>s.split(c)\<close> for a separator of one character; the result is never empty.\<close>

fun split_on :: "char \<Rightarrow> string \<Rightarrow> string list" where
  "split_on c [] = [[]]"
| "split_on c (x # xs) =
     (if x = c then [] # split_on c xs
      else (case split_on c xs of
              [] \<Rightarrow> [[x]]
            | w # ws \<Rightarrow> (x # w) # ws))"

text \<open>\<open>strs.join(sep)\<close>.\<close>

fun join :: "string \<Rightarrow> string list \<Rightarrow> string" where
  "join sep [] = []"
| "join sep [x] = x"
| "join sep (x # y # ys) = x @ sep @ join sep (y # ys)"

text \<open>\<open>join\<close> writes an \<open>undefined\<close> element as the empty string.\<close>

definition undefined_as_empty :: "string option \<Rightarrow> string" where
  "undefined_as_empty v = (case v of None \<Rightarrow> [] | Some s \<Rightarrow> s)"

definition lower_char :: "char \<Rightarrow> char" where
  "lower_char c =
     (let n = (of_char c :: nat)
      in if 65 \<le> n \<and> n \<le> 90 then char_of (n + 32) else c)"

definition toLowerCase :: "string \<Rightarrow> string" where
  "toLowerCase s = map lower_char s"

text \<open>\<open>s.replace(pat, rep)\<close> with a string pattern: only the first occurrence is replaced.\<close>

fun replace_first :: "string \<Rightarrow> string \<Rightarrow> string \<Rightarrow> string" where
  "replace_first pat rep [] = (if pat = [] then rep else [])"
| "replace_first pat rep (x # xs) =
     (if take (length pat) (x # xs) = pat then rep @ drop (length pat) (x # xs)
      else x # replace_first pat rep xs)"



text \<open>The decimal text of a number, as a template literal writes it.\<close>

definition digit_char :: "nat \<Rightarrow> char" where
  "digit_char d = char_of (48 + d)"

fun show_nat :: "nat \<Rightarrow> string" where
  "show_nat n = (if n < 10 then [digit_char n] else show_nat (n div 10) @ [digit_char (n mod 10)])"

declare show_nat.simps [simp del]

text \<open>A product with a missing (\<open>undefined\<close>) factor is \<open>NaN\<close>.\<close>

definition show_number :: "nat option \<Rightarrow> string" where
  "show_number v = (case v of None \<Rightarrow> ''NaN'' | Some n \<Rightarrow> show_nat n)"

subsection \<open>Data model\<close>

text \<open>An entry of a \<open>skin_variations\<close> table.\<close>

record variation =
  v_unified :: string
  v_image :: string
  v_sheet_x :: "nat option"
  v_sheet_y :: "nat option"
  v_vendor :: "(string \<times> string) list"

text \<open>
  An emoji object. \<open>image_file\<close> is the property \<open>image\<close>; \<open>skins\<close> and \<open>fileName\<close> are
  absent from the dataset and set by the script.
\<close>

record emoji =
  name :: string
  unified :: string
  image_file :: string
  short_name :: string
  short_names :: "string list"
  category :: string
  sort_order :: "int option"
  sheet_x :: "nat option"
  sheet_y :: "nat option"
  skin_variations :: "(string \<times> variation) list option"
  skins :: "string list option"
  fileName :: "string option"
  vendor :: "(string \<times> string) list"

definition EMOJI_SIZE :: nat where
  "EMOJI_SIZE = 64"

definition EMOJI_SIZE_PADDED :: nat where
  "EMOJI_SIZE_PADDED = EMOJI_SIZE + 2"

definition EMOJI_DEFAULT_SKIN :: string where
  "EMOJI_DEFAULT_SKIN = ''default''"

definition sheetFile :: string where
  "sheetFile = ''images/emoji-sheets/apple-sheet.png''"

definition skinCodes :: "string \<Rightarrow> string option" where
  "skinCodes = map_of
     [(''1F3FB'', ''light_skin_tone''),
      (''1F3FC'', ''medium_light_skin_tone''),
      (''1F3FD'', ''medium_skin_tone''),
      (''1F3FE'', ''medium_dark_skin_tone''),
      (''1F3FF'', ''dark_skin_tone''),
      (''default'', ''default'')]"

definition skinNames :: "string \<Rightarrow> string option" where
  "skinNames = map_of
     [(''1F3FB'', ''LIGHT SKIN TONE''),
      (''1F3FC'', ''MEDIUM LIGHT SKIN TONE''),
      (''1F3FD'', ''MEDIUM SKIN TONE''),
      (''1F3FE'', ''MEDIUM DARK SKIN TONE''),
      (''1F3FF'', ''DARK SKIN TONE'')]"

subsection \<open>Helper functions of the script\<close>

definition filename :: "emoji \<Rightarrow> string" where
  "filename emoji = hd (split_on CHR ''.'' (image_file emoji))"

definition convertCategory :: "string \<Rightarrow> string" where
  "convertCategory cat = replace_first '' & '' ''-'' (toLowerCase cat)"

text \<open>\<open>Map.get\<close> and \<open>Map.set\<close> on an association list in insertion order.\<close>

fun map_set :: "('k \<times> 'v) list \<Rightarrow> 'k \<Rightarrow> 'v \<Rightarrow> ('k \<times> 'v) list" where
  "map_set [] k v = [(k, v)]"
| "map_set ((k', v') # m) k v = (if k' = k then (k, v) # m else (k', v') # map_set m k v)"

definition addIndexToMap :: "(string \<times> nat list) list \<Rightarrow> string \<Rightarrow> nat list \<Rightarrow> (string \<times> nat list) list" where
  "addIndexToMap emojiMap key indexes =
     (let newList = (case map_of emojiMap key of None \<Rightarrow> [] | Some l \<Rightarrow> l)
      in map_set emojiMap key (newList @ indexes))"

text \<open>The body of the arrow function of \<open>genSkinVariations\<close>, for one entry of the table.\<close>

definition skinShortName :: "string \<Rightarrow> string" where
  "skinShortName skinCode =
     join ''_'' (map (\<lambda>code. undefined_as_empty (skinCodes code)) (split_on CHR ''-'' skinCode))"

definition skinName :: "string \<Rightarrow> string" where
  "skinName skinCode =
     join '', '' (map (\<lambda>code. undefined_as_empty (skinNames code)) (split_on CHR ''-'' skinCode))"

definition genSkinVariation :: "emoji \<Rightarrow> string \<times> variation \<Rightarrow> emoji" where
  "genSkinVariation emoji entry =
     (let skinCode = fst entry;
          v = snd entry
      in \<lparr> name = name emoji @ '': '' @ skinName skinCode,
           unified = v_unified v,
           image_file = v_image v,
           short_name = short_name emoji @ ''_'' @ skinShortName skinCode,
           short_names = map (\<lambda>alias. alias @ ''_'' @ skinShortName skinCode) (short_names emoji),
           category = category emoji,
           sort_order = None,
           sheet_x = v_sheet_x v,
           sheet_y = v_sheet_y v,
           skin_variations = None,
           skins = Some (split_on CHR ''-'' skinCode),
           fileName = None,
           vendor = v_vendor v \<rparr>)"

definition genSkinVariations :: "emoji \<Rightarrow> emoji list" where
  "genSkinVariations emoji =
     (case skin_variations emoji of
        None \<Rightarrow> []
      | Some table \<Rightarrow> map (genSkinVariation emoji) table)"

text \<open>The properties \<open>trimPropertiesFromEmoji\<close> deletes.\<close>

definition trimmed_properties :: "string list" where
  "trimmed_properties =
     [''non_qualified'', ''docomo'', ''au'', ''softbank'', ''google'', ''sheet_x'', ''sheet_y'',
      ''added_in'', ''has_img_apple'', ''has_img_google'', ''has_img_twitter'',
      ''has_img_facebook'', ''source_index'', ''sort_order'', ''subcategory'']"

definition trimPropertiesFromEmoji :: "emoji \<Rightarrow> emoji" where
  "trimPropertiesFromEmoji emoji =
     emoji \<lparr> sheet_x := None, sheet_y := None, sort_order := None,
             vendor := filter (\<lambda>p. fst p \<notin> set trimmed_properties) (vendor emoji) \<rparr>"

subsection \<open>Command line and exclusion list\<close>



text \<open>A string is truthy when it is there and not empty.\<close>

definition truthy :: "string option \<Rightarrow> bool" where
  "truthy v = (case v of None \<Rightarrow> False | Some s \<Rightarrow> s \<noteq> [])"


subsection \<open>Filter, skin expansion, aliases, built-in entry\<close>

definition filteredEmojiJson :: "string list \<Rightarrow> emoji list \<Rightarrow> emoji list" where
  "filteredEmojiJson excluded jsonData =
     filter (\<lambda>element. \<not> list_ex (\<lambda>e. e \<in> set (short_names element)) excluded) jsonData"

text \<open>\<open>fullEmoji\<close> after the loop that pushes the variations of every filtered record.\<close>

definition withSkinVariations :: "emoji list \<Rightarrow> emoji list" where
  "withSkinVariations filtered =
     foldl (\<lambda>full emoji. full @ genSkinVariations emoji) filtered filtered"

text \<open>The body of the loop that adds the old short names.\<close>

definition addShortnames :: "(string \<rightharpoonup> string list) \<Rightarrow> emoji \<Rightarrow> emoji" where
  "addShortnames additionalShortnames emoji =
     (case additionalShortnames (short_name emoji) of
        None \<Rightarrow> emoji
      | Some extra \<Rightarrow> emoji \<lparr> short_names := short_names emoji @ extra \<rparr>)"

definition mattermost :: emoji where
  "mattermost =
     \<lparr> name = ''Mattermost'',
       unified = [],
       image_file = ''mattermost.png'',
       short_name = ''mattermost'',
       short_names = [''mattermost''],
       category = ''custom'',
       sort_order = None,
       sheet_x = None,
       sheet_y = None,
       skin_variations = None,
       skins = None,
       fileName = None,
       vendor = [] \<rparr>"

text \<open>\<open>fullEmoji\<close> right before the sort.\<close>

definition unsortedEmoji :: "(string \<rightharpoonup> string list) \<Rightarrow> string list \<Rightarrow> emoji list \<Rightarrow> emoji list" where
  "unsortedEmoji additionalShortnames excluded jsonData =
     map (addShortnames additionalShortnames)
       (withSkinVariations (filteredEmojiJson excluded jsonData)) @ [mattermost]"

subsection \<open>The sort\<close>

text \<open>
  The comparator \<open>emojiA.sort_order - emojiB.sort_order\<close>. A difference with a missing
  (\<open>undefined\<close>) operand is \<open>NaN\<close>, here \<open>None\<close>.
\<close>

definition sort_order_difference :: "emoji \<Rightarrow> emoji \<Rightarrow> int option" where
  "sort_order_difference emojiA emojiB =
     (case sort_order emojiA of
        None \<Rightarrow> None
      | Some a \<Rightarrow> (case sort_order emojiB of None \<Rightarrow> None | Some b \<Rightarrow> Some (a - b)))"

text \<open>\<open>Array.prototype.sort\<close> reads a comparator result \<open>NaN\<close> as \<open>+0\<close>.\<close>

definition SortCompare :: "('a \<Rightarrow> 'a \<Rightarrow> int option) \<Rightarrow> 'a \<Rightarrow> 'a \<Rightarrow> int" where
  "SortCompare comparefn x y = (case comparefn x y of None \<Rightarrow> 0 | Some v \<Rightarrow> v)"

text \<open>
  \<open>Array.prototype.sort\<close> is a stable sort, modelled as the stable insertion sort: an
  element is put before the first element it is not greater than. Where the comparator is
  a consistent order the language fixes this result; where it is not (records without a
  key between records with different keys) the language leaves the order to the
  implementation, and the model is one such implementation.
\<close>

fun sort_insert :: "('a \<Rightarrow> 'a \<Rightarrow> int option) \<Rightarrow> 'a \<Rightarrow> 'a list \<Rightarrow> 'a list" where
  "sort_insert comparefn x [] = [x]"
| "sort_insert comparefn x (y # ys) =
     (if SortCompare comparefn x y > 0 then y # sort_insert comparefn x ys else x # y # ys)"

fun array_sort :: "('a \<Rightarrow> 'a \<Rightarrow> int option) \<Rightarrow> 'a list \<Rightarrow> 'a list" where
  "array_sort comparefn [] = []"
| "array_sort comparefn (x # xs) = sort_insert comparefn x (array_sort comparefn xs)"

definition fullEmoji :: "(string \<rightharpoonup> string list) \<Rightarrow> string list \<Rightarrow> emoji list \<Rightarrow> emoji list" where
  "fullEmoji additionalShortnames excluded jsonData =
     array_sort sort_order_difference (unsortedEmoji additionalShortnames excluded jsonData)"

text \<open>
  The sort key as the specification words it, a missing key counting as 0. The script
  has no such function; it is what the sorted list is compared against.
\<close>

definition key_missing_as_zero :: "emoji \<Rightarrow> int" where
  "key_missing_as_zero emoji = (case sort_order emoji of None \<Rightarrow> 0 | Some k \<Rightarrow> k)"

subsection \<open>The index loop\<close>

record indices =
  emojiIndicesByAlias :: "(string \<times> nat) list"
  emojiIndicesByUnicode :: "(string \<times> nat) list"
  emojiIndicesByCategory :: "(string \<times> nat list) list"
  emojiIndicesByCategoryAndSkin :: "(string \<times> (string \<times> nat list) list) list"
  emojiIndicesByCategoryNoSkin :: "(string \<times> nat list) list"
  categoryNamesSet :: "string list"
  categoryDefaultTranslation :: "(string \<times> string) list"
  emojiImagesByAlias :: "string list"
  emojiFilePositions :: "(string \<times> string) list"
  skinset :: "string list"

definition no_indices :: indices where
  "no_indices =
     \<lparr> emojiIndicesByAlias = [], emojiIndicesByUnicode = [], emojiIndicesByCategory = [],
       emojiIndicesByCategoryAndSkin = [], emojiIndicesByCategoryNoSkin = [],
       categoryNamesSet = [], categoryDefaultTranslation = [], emojiImagesByAlias = [],
       emojiFilePositions = [], skinset = [] \<rparr>"

text \<open>\<open>Set.add\<close> on a list in insertion order.\<close>

definition set_add :: "'a list \<Rightarrow> 'a \<Rightarrow> 'a list" where
  "set_add xs x = (if x \<in> set xs then xs else xs @ [x])"

text \<open>\<open>(emoji.skins && emoji.skins[0]) || EMOJI_DEFAULT_SKIN\<close>.\<close>

definition skin_of :: "emoji \<Rightarrow> string" where
  "skin_of emoji =
     (case skins emoji of
        Some (s # rest) \<Rightarrow> if s \<noteq> [] then s else EMOJI_DEFAULT_SKIN
      | _ \<Rightarrow> EMOJI_DEFAULT_SKIN)"

definition file_position :: "emoji \<Rightarrow> string" where
  "file_position emoji =
     ''-'' @ show_number (map_option (\<lambda>x. x * EMOJI_SIZE_PADDED) (sheet_x emoji)) @ ''px -''
       @ show_number (map_option (\<lambda>y. y * EMOJI_SIZE_PADDED) (sheet_y emoji)) @ ''px;''"

definition image_by_alias :: "string \<Rightarrow> string \<Rightarrow> string" where
  "image_by_alias file alias =
     [CHR 0x22] @ alias @ [CHR 0x22] @ '': '' @ [CHR 0x22] @ file @ [CHR 0x22]"

text \<open>What one round of the loop does to the tables, for the record at position \<open>index\<close>.\<close>

definition index_emoji :: "nat \<Rightarrow> emoji \<Rightarrow> indices \<Rightarrow> indices" where
  "index_emoji index emoji s =
     (let safeCat = convertCategory (category emoji);
          skin = skin_of emoji;
          skinned = (skins emoji \<noteq> None \<or> skin_variations emoji \<noteq> None);
          categoryBySkin =
            (case map_of (emojiIndicesByCategoryAndSkin s) skin of None \<Rightarrow> [] | Some m \<Rightarrow> m);
          file = filename emoji
      in s \<lparr> emojiIndicesByUnicode :=
               (if unified emoji \<noteq> []
                then emojiIndicesByUnicode s @ [(toLowerCase (unified emoji), index)]
                else emojiIndicesByUnicode s),
             categoryDefaultTranslation :=
               map_set (categoryDefaultTranslation s) safeCat (category emoji),
             emojiIndicesByCategory := addIndexToMap (emojiIndicesByCategory s) safeCat [index],
             skinset := (if skinned then set_add (skinset s) skin else skinset s),
             emojiIndicesByCategoryAndSkin :=
               (if skinned
                then map_set (emojiIndicesByCategoryAndSkin s) skin
                       (addIndexToMap categoryBySkin safeCat [index])
                else emojiIndicesByCategoryAndSkin s),
             emojiIndicesByCategoryNoSkin :=
               (if skinned then emojiIndicesByCategoryNoSkin s
                else addIndexToMap (emojiIndicesByCategoryNoSkin s) safeCat [index]),
             categoryNamesSet := set_add (categoryNamesSet s) safeCat,
             emojiIndicesByAlias :=
               emojiIndicesByAlias s @ map (\<lambda>alias. (alias, index)) (short_names emoji),
             emojiFilePositions :=
               (if safeCat \<noteq> ''custom''
                then map_set (emojiFilePositions s) file (file_position emoji)
                else emojiFilePositions s),
             emojiImagesByAlias :=
               emojiImagesByAlias s @ map (image_by_alias file) (short_names emoji) \<rparr>)"

text \<open>What the same round does to the record itself.\<close>

definition indexed_emoji :: "emoji \<Rightarrow> emoji" where
  "indexed_emoji emoji =
     emoji \<lparr> category := convertCategory (category emoji),
             fileName := Some (image_file emoji),
             image_file := filename emoji \<rparr>"

fun index_from :: "nat \<Rightarrow> emoji list \<Rightarrow> indices \<Rightarrow> indices" where
  "index_from index [] s = s"
| "index_from index (emoji # rest) s = index_from (Suc index) rest (index_emoji index emoji s)"

definition build_indices :: "emoji list \<Rightarrow> indices" where
  "build_indices full = index_from 0 full no_indices"

subsection \<open>The generated artifacts\<close>

text \<open>The array written to \<open>utils/emoji.json\<close>.\<close>

definition trimmedDownEmojis :: "emoji list \<Rightarrow> emoji list" where
  "trimmedDownEmojis full = map (\<lambda>emoji. trimPropertiesFromEmoji (indexed_emoji emoji)) full"

definition categoryList :: "(string \<times> 'a) list \<Rightarrow> string list" where
  "categoryList jsonCategories =
     map convertCategory (filter (\<lambda>item. item \<noteq> ''Component'') (map fst jsonCategories))"

definition categoryNames :: "(string \<times> 'a) list \<Rightarrow> string list" where
  "categoryNames jsonCategories = [''recent''] @ categoryList jsonCategories @ [''custom'']"

definition categoryMessage :: "indices \<Rightarrow> (string \<times> string) list" where
  "categoryMessage s =
     map_set (map_set (map_set (categoryDefaultTranslation s)
       ''recent'' ''Recently Used'') ''searchResults'' ''Search Results'') ''custom'' ''Custom''"

text \<open>The text written to \<open>emoji_data.go\<close>.\<close>

definition emojiGo :: "indices \<Rightarrow> string" where
  "emojiGo s =
     ''// Copyright (c) 2015-present Mattermost, Inc. All Rights Reserved.'' @ [CHR 0x0A]
     @ ''// See LICENSE.txt for license information.'' @ [CHR 0x0A]
     @ ''// This file is automatically generated via '' @ [CHR 0x60] @ ''make emojis''
     @ [CHR 0x60] @ ''. Do not modify it manually.'' @ [CHR 0x0A]
     @ [CHR 0x0A]
     @ ''package model'' @ [CHR 0x0A]
     @ [CHR 0x0A]
     @ ''var SystemEmojis = map[string]string{'' @ join '', '' (emojiImagesByAlias s) @ ''}''
     @ [CHR 0x0A]"

text \<open>The rules of the stylesheet that depend on the dataset.\<close>

definition cssCats :: "(string \<times> 'a) list \<Rightarrow> string list" where
  "cssCats jsonCategories =
     map (\<lambda>cat. ''.emoji-category-'' @ cat @ '' { background-image: url('' @ [CHR 0x27]
                 @ sheetFile @ [CHR 0x27] @ ''); }'')
       (filter (\<lambda>cat. cat \<noteq> ''custom'') (categoryNames jsonCategories))"

definition cssEmojis :: "indices \<Rightarrow> string list" where
  "cssEmojis s =
     map (\<lambda>entry. ''.emoji-'' @ fst entry @ '' { background-position: '' @ snd entry @ '' }'')
       (emojiFilePositions s)"

text \<open>
  The key of an entry \<open>"key": "value"\<close> of the map literal in \<open>emoji_data.go\<close>: the text
  between its first two quotation marks. The script does not read its entries back; this
  is how a reader of the file does.
\<close>

definition entry_key :: "string \<Rightarrow> string" where
  "entry_key entry = takeWhile (\<lambda>c. c \<noteq> CHR 0x22) (drop 1 entry)"

text \<open>
  Everything the run generates: the value serialised into \<open>emoji.json\<close>, the tables and
  the category order embedded in \<open>emoji.jsx\<close>, the text of \<open>emoji_data.go\<close> and the
  directory it is moved below (if \<open>SERVER_DIR\<close> is set), and the stylesheet rules. The
  embedding ends at the values handed to the file writes; the writes themselves, issued
  concurrently as promises under one abort signal, are outside it.
\<close>

record artifacts =
  emoji_json :: "emoji list"
  EmojiIndicesByAlias :: "(string \<times> nat) list"
  EmojiIndicesByUnicode :: "(string \<times> nat) list"
  CategoryNames :: "string list"
  CategoryMessage :: "(string \<times> string) list"
  AllEmojiIndicesByCategory :: "(string \<times> nat list) list"
  EmojiIndicesByCategoryAndSkin :: "(string \<times> (string \<times> nat list) list) list"
  EmojiIndicesByCategoryNoSkin :: "(string \<times> nat list) list"
  emoji_data_go :: string
  moved_below :: "string option"
  css_categories :: "string list"
  css_emojis :: "string list"

definition generate ::
  "string option \<Rightarrow> emoji list \<Rightarrow> (string \<times> 'a) list \<Rightarrow> (string \<rightharpoonup> string list) \<Rightarrow> string list
     \<Rightarrow> artifacts" where
  "generate server_dir jsonData jsonCategories additionalShortnames excluded =
     (let full = fullEmoji additionalShortnames excluded jsonData;
          s = build_indices full
      in \<lparr> emoji_json = trimmedDownEmojis full,
           EmojiIndicesByAlias = emojiIndicesByAlias s,
           EmojiIndicesByUnicode = emojiIndicesByUnicode s,
           CategoryNames = categoryNames jsonCategories,
           CategoryMessage = categoryMessage s,
           AllEmojiIndicesByCategory = emojiIndicesByCategory s,
           EmojiIndicesByCategoryAndSkin = emojiIndicesByCategoryAndSkin s,
           EmojiIndicesByCategoryNoSkin = emojiIndicesByCategoryNoSkin s,
           emoji_data_go = emojiGo s,
           moved_below = (if truthy server_dir then server_dir else None),
           css_categories = cssCats jsonCategories,
           css_emojis = cssEmojis s \<rparr>)"


subsection \<open>A small dataset\<close>

text \<open>
  Three records in the shape of the dataset, out of sort order: a face, a hand with two skin
  variations, and a hand that the compatibility table knows under a second name. They are
  the concrete inputs at which the theorems below are instantiated.
\<close>

definition grinning :: emoji where
  "grinning =
     \<lparr> name = ''GRINNING FACE'',
       unified = ''1F600'',
       image_file = ''1f600.png'',
       short_name = ''grinning'',
       short_names = [''grinning''],
       category = ''Smileys & Emotion'',
       sort_order = Some 1,
       sheet_x = Some 3,
       sheet_y = Some 0,
       skin_variations = None,
       skins = None,
       fileName = None,
       vendor = [(''non_qualified'', ''null''), (''text'', ''null''), (''has_img_apple'', ''true'')] \<rparr>"

definition wave :: emoji where
  "wave =
     \<lparr> name = ''WAVING HAND SIGN'',
       unified = ''1F44B'',
       image_file = ''1f44b.png'',
       short_name = ''wave'',
       short_names = [''wave''],
       category = ''People & Body'',
       sort_order = Some 170,
       sheet_x = Some 13,
       sheet_y = Some 8,
       skin_variations = Some
         [(''1F3FB'', \<lparr> v_unified = ''1F44B-1F3FB'', v_image = ''1f44b-1f3fb.png'',
                        v_sheet_x = Some 13, v_sheet_y = Some 9,
                        v_vendor = [(''added_in'', ''2.0'')] \<rparr>),
          (''1F3FF'', \<lparr> v_unified = ''1F44B-1F3FF'', v_image = ''1f44b-1f3ff.png'',
                        v_sheet_x = Some 13, v_sheet_y = Some 13,
                        v_vendor = [(''added_in'', ''2.0'')] \<rparr>)],
       skins = None,
       fileName = None,
       vendor = [(''non_qualified'', ''null''), (''subcategory'', ''hand-fingers-open'')] \<rparr>"

definition thumbsup :: emoji where
  "thumbsup =
     \<lparr> name = ''THUMBS UP SIGN'',
       unified = ''1F44D'',
       image_file = ''1f44d.png'',
       short_name = ''+1'',
       short_names = [''+1'', ''thumbsup''],
       category = ''People & Body'',
       sort_order = Some 186,
       sheet_x = Some 14,
       sheet_y = Some 5,
       skin_variations = None,
       skins = None,
       fileName = None,
       vendor = [(''texts'', ''null'')] \<rparr>"

definition sample_data :: "emoji list" where
  "sample_data = [thumbsup, wave, grinning]"

definition sample_categories :: "(string \<times> string list) list" where
  "sample_categories =
     [(''Smileys & Emotion'', [''grinning'']),
      (''People & Body'', [''wave'', ''+1'']),
      (''Component'', [''skin-tone-2''])]"

definition sample_shortnames :: "string \<rightharpoonup> string list" where
  "sample_shortnames =
     map_of [(''+1'', [''thumbs_up'']), (''wave_dark_skin_tone'', [''wave_dark''])]"



section \<open>Properties\<close>

subsection \<open>Strings, tables and the loops\<close>

lemma split_on_not_Nil: "split_on c s \<noteq> []"
  by (induction s) (auto split: list.splits)

lemma hd_split_on: "hd (split_on c s) = takeWhile (\<lambda>x. x \<noteq> c) s"
  by (induction s) (auto split: list.splits simp: split_on_not_Nil)

lemma filename_takeWhile: "filename e = takeWhile (\<lambda>x. x \<noteq> CHR ''.'') (image_file e)"
  by (simp add: filename_def hd_split_on)

lemma foldl_append_concat: "foldl (\<lambda>full e. full @ g e) acc xs = acc @ concat (map g xs)"
  by (induction xs arbitrary: acc) auto

lemma withSkinVariations_eq:
  "withSkinVariations filtered = filtered @ concat (map genSkinVariations filtered)"
  by (simp add: withSkinVariations_def foldl_append_concat)

lemma mset_sort_insert: "mset (sort_insert c x ys) = add_mset x (mset ys)"
  by (induction ys) auto

lemma mset_array_sort: "mset (array_sort c xs) = mset xs"
  by (induction xs) (auto simp: mset_sort_insert)

lemma set_array_sort: "set (array_sort c xs) = set xs"
  by (metis mset_array_sort set_mset_mset)

lemma map_of_map_set: "map_of (map_set m k v) = (map_of m)(k \<mapsto> v)"
  by (induction m k v rule: map_set.induct) auto

lemma images_index_from:
  "emojiImagesByAlias (index_from i es s) =
     emojiImagesByAlias s @
       concat (map (\<lambda>e. map (image_by_alias (filename e)) (short_names e)) es)"
  by (induction es arbitrary: i s) (simp_all add: index_emoji_def Let_def)

lemma positions_index_emoji:
  "map_of (emojiFilePositions (index_emoji i e s)) =
     (if convertCategory (category e) \<noteq> ''custom''
      then (map_of (emojiFilePositions s))(filename e \<mapsto> file_position e)
      else map_of (emojiFilePositions s))"
  by (simp add: index_emoji_def Let_def map_of_map_set)

lemma map_upd_add_assoc: "(m(k \<mapsto> v)) ++ M = m ++ (map_of [(k, v)] ++ M)"
  by (rule ext) (simp add: map_add_def split: option.splits)

lemma positions_index_from:
  "map_of (emojiFilePositions (index_from i es s)) =
     map_of (emojiFilePositions s) ++
       map_of (rev (map (\<lambda>e. (filename e, file_position e))
                     (filter (\<lambda>e. convertCategory (category e) \<noteq> ''custom'') es)))"
proof (induction es arbitrary: i s)
  case Nil
  then show ?case by simp
next
  case (Cons e es)
  let ?M = "map_of (rev (map (\<lambda>e. (filename e, file_position e))
                     (filter (\<lambda>e. convertCategory (category e) \<noteq> ''custom'') es)))"
  have step: "map_of (emojiFilePositions (index_from i (e # es) s)) =
      map_of (emojiFilePositions (index_emoji i e s)) ++ ?M"
    using Cons.IH [of "Suc i" "index_emoji i e s"] by simp
  show ?case
  proof (cases "convertCategory (category e) = ''custom''")
    case True
    then show ?thesis
      unfolding step by (simp add: positions_index_emoji)
  next
    case False
    have "map_of (emojiFilePositions (index_emoji i e s)) ++ ?M =
        map_of (emojiFilePositions s) ++ (map_of [(filename e, file_position e)] ++ ?M)"
    proof -
      have "map_of (emojiFilePositions (index_emoji i e s)) =
          (map_of (emojiFilePositions s))(filename e \<mapsto> file_position e)"
        using False by (simp add: positions_index_emoji)
      then show ?thesis
        by (simp only: map_upd_add_assoc)
    qed
    also have "map_of [(filename e, file_position e)] ++ ?M =
        map_of (rev (map (\<lambda>e. (filename e, file_position e))
                     (filter (\<lambda>e. convertCategory (category e) \<noteq> ''custom'') (e # es))))"
    proof -
      have "filter (\<lambda>e. convertCategory (category e) \<noteq> ''custom'') (e # es) =
          e # filter (\<lambda>e. convertCategory (category e) \<noteq> ''custom'') es"
        using False by simp
      then show ?thesis
        by (simp only: list.map rev.simps map_of_append)
    qed
    finally show ?thesis
      unfolding step .
  qed
qed


lemma position_keys_index_from:
  "fst ` set (emojiFilePositions (index_from i es s)) =
     fst ` set (emojiFilePositions s) \<union>
       filename ` {e \<in> set es. convertCategory (category e) \<noteq> ''custom''}"
proof -
  have "dom (map_of (emojiFilePositions (index_from i es s))) =
      dom (map_of (emojiFilePositions s)) \<union>
        dom (map_of (rev (map (\<lambda>e. (filename e, file_position e))
                     (filter (\<lambda>e. convertCategory (category e) \<noteq> ''custom'') es))))"
    by (simp only: positions_index_from dom_map_add Un_commute)
  then show ?thesis
    by (simp only: dom_map_of_conv_image_fst set_rev set_map set_filter image_image fst_conv)
qed

lemma length_trimmedDownEmojis: "length (trimmedDownEmojis full) = length full"
  by (simp add: trimmedDownEmojis_def)

lemma nth_trimmedDownEmojis:
  "i < length full \<Longrightarrow>
     trimmedDownEmojis full ! i = trimPropertiesFromEmoji (indexed_emoji (full ! i))"
  by (simp add: trimmedDownEmojis_def)

lemma emoji_json_generate:
  "emoji_json (generate sd D C A L) = trimmedDownEmojis (fullEmoji A L D)"
  by (simp add: generate_def Let_def)

lemma css_emojis_generate:
  "css_emojis (generate sd D C A L) = cssEmojis (build_indices (fullEmoji A L D))"
  by (simp add: generate_def Let_def)

lemma emoji_data_go_generate:
  "emoji_data_go (generate sd D C A L) = emojiGo (build_indices (fullEmoji A L D))"
  by (simp add: generate_def Let_def)

subsection \<open>File names (C10)\<close>

lemma join_contains: "x \<in> set xs \<Longrightarrow> \<exists>before after. join sep xs = before @ x @ after"
proof (induction sep xs rule: join.induct)
  case (1 sep)
  then show ?case by simp
next
  case (2 sep y)
  then have "join sep [y] = [] @ x @ []"
    by simp
  then show ?case by blast
next
  case (3 sep y z zs)
  show ?case
  proof (cases "x = y")
    case True
    then have "join sep (y # z # zs) = [] @ x @ (sep @ join sep (z # zs))"
      by simp
    then show ?thesis by blast
  next
    case False
    then have "x \<in> set (z # zs)"
      using 3 by simp
    then obtain before after where "join sep (z # zs) = before @ x @ after"
      using 3 by blast
    then have "join sep (y # z # zs) = (y @ sep @ before) @ x @ after"
      by simp
    then show ?thesis by blast
  qed
qed

lemma image_by_alias_text:
  "image_by_alias file =
     (\<lambda>alias. [CHR 0x22] @ alias @ [CHR 0x22] @ '': '' @ [CHR 0x22] @ file @ [CHR 0x22])"
  by (rule ext) (simp add: image_by_alias_def)

lemma emojiImagesByAlias_build_indices:
  "emojiImagesByAlias (build_indices full) =
     concat (map (\<lambda>e. map (\<lambda>alias. [CHR 0x22] @ alias @ [CHR 0x22] @ '': '' @ [CHR 0x22]
                               @ takeWhile (\<lambda>c. c \<noteq> CHR ''.'') (image_file e) @ [CHR 0x22])
                        (short_names e)) full)"
  by (simp only: build_indices_def images_index_from image_by_alias_text filename_takeWhile)
     (simp add: no_indices_def)

lemma entry_key_of_entry:
  "CHR 0x22 \<notin> set key \<Longrightarrow> entry_key ([CHR 0x22] @ key @ [CHR 0x22] @ rest) = key"
  by (auto simp: entry_key_def takeWhile_tail)


text \<open>
  The specification calls the cut image name the key of the cross-language table (C10).
  In the map of \<open>emoji_data.go\<close> the keys are the aliases and the cut name is the value
  stored under them: for the dataset of the one grinning face the keys are \<open>grinning\<close> and
  \<open>mattermost\<close>, and the cut name \<open>1f600\<close> of the face is not one of them.
\<close>

theorem image_not_entry_key_counterexample:
  "image_file (emoji_json (generate None [grinning] sample_categories sample_shortnames []) ! 0)
     \<notin> set (map entry_key
              (emojiImagesByAlias (build_indices (fullEmoji sample_shortnames [] [grinning]))))
   \<and> image_file (emoji_json (generate None [grinning] sample_categories sample_shortnames []) ! 0)
       = ''1f600''
   \<and> map entry_key (emojiImagesByAlias (build_indices (fullEmoji sample_shortnames [] [grinning])))
       = [''grinning'', ''mattermost'']"
  by code_simp

text \<open>
  C10 (amended). Every record of the array written to \<open>emoji.json\<close> has as \<open>image\<close> the
  original image file name cut at its first dot, and as \<open>fileName\<close> the original name with
  its extension. Neither \<open>fileName\<close> nor \<open>image\<close> is among the properties the trimming
  deletes. In the map of \<open>emoji_data.go\<close> the cut name is the value written under every
  alias of the record, the alias being the key: the text of the file is the fixed header,
  the entries \<open>"alias": "cut name"\<close> of all records in the order of the sorted list, joined
  by \<open>", "\<close>, and \<open>}\<close> with a line feed. The cut name is the key of the record's stylesheet
  position (which every record outside the category \<open>custom\<close> has), and the stylesheet has
  one rule \<open>.emoji-key\<close> per position.
\<close>

theorem emoji_json_image_and_fileName:
  assumes "i < length (fullEmoji A L D)"
  shows "image_file (emoji_json (generate sd D C A L) ! i) =
           takeWhile (\<lambda>c. c \<noteq> CHR ''.'') (image_file (fullEmoji A L D ! i))
       \<and> fileName (emoji_json (generate sd D C A L) ! i) = Some (image_file (fullEmoji A L D ! i))
       \<and> ''fileName'' \<notin> set trimmed_properties
       \<and> ''image'' \<notin> set trimmed_properties
       \<and> emoji_data_go (generate sd D C A L) =
            ''// Copyright (c) 2015-present Mattermost, Inc. All Rights Reserved.'' @ [CHR 0x0A]
            @ ''// See LICENSE.txt for license information.'' @ [CHR 0x0A]
            @ ''// This file is automatically generated via '' @ [CHR 0x60] @ ''make emojis''
            @ [CHR 0x60] @ ''. Do not modify it manually.'' @ [CHR 0x0A]
            @ [CHR 0x0A]
            @ ''package model'' @ [CHR 0x0A]
            @ [CHR 0x0A]
            @ ''var SystemEmojis = map[string]string{''
            @ join '', ''
                (concat (map (\<lambda>e. map (\<lambda>alias. [CHR 0x22] @ alias @ [CHR 0x22] @ '': ''
                                            @ [CHR 0x22]
                                            @ takeWhile (\<lambda>c. c \<noteq> CHR ''.'') (image_file e)
                                            @ [CHR 0x22])
                                     (short_names e))
                          (fullEmoji A L D)))
            @ ''}'' @ [CHR 0x0A]
       \<and> (\<forall>alias \<in> set (short_names (fullEmoji A L D ! i)).
            \<exists>before after.
              emoji_data_go (generate sd D C A L) =
                before @ [CHR 0x22] @ alias @ [CHR 0x22] @ '': '' @ [CHR 0x22]
                  @ image_file (emoji_json (generate sd D C A L) ! i) @ [CHR 0x22] @ after)
       \<and> (\<forall>alias \<in> set (short_names (fullEmoji A L D ! i)).
            CHR 0x22 \<notin> set alias \<longrightarrow>
              entry_key ([CHR 0x22] @ alias @ [CHR 0x22] @ '': '' @ [CHR 0x22]
                  @ image_file (emoji_json (generate sd D C A L) ! i) @ [CHR 0x22]) = alias)
       \<and> (convertCategory (category (fullEmoji A L D ! i)) \<noteq> ''custom'' \<longrightarrow>
            image_file (emoji_json (generate sd D C A L) ! i)
              \<in> fst ` set (emojiFilePositions (build_indices (fullEmoji A L D))))
       \<and> css_emojis (generate sd D C A L) =
            map (\<lambda>entry. ''.emoji-'' @ fst entry @ '' { background-position: '' @ snd entry @ '' }'')
              (emojiFilePositions (build_indices (fullEmoji A L D)))"
proof -
  let ?full = "fullEmoji A L D"
  let ?e = "?full ! i"
  let ?cut = "takeWhile (\<lambda>c. c \<noteq> CHR ''.'') (image_file ?e)"
  let ?entries = "concat (map (\<lambda>e. map (\<lambda>alias. [CHR 0x22] @ alias @ [CHR 0x22] @ '': ''
                                            @ [CHR 0x22]
                                            @ takeWhile (\<lambda>c. c \<noteq> CHR ''.'') (image_file e)
                                            @ [CHR 0x22])
                                     (short_names e)) ?full)"
  have json: "emoji_json (generate sd D C A L) ! i = trimPropertiesFromEmoji (indexed_emoji ?e)"
    using assms by (simp add: emoji_json_generate nth_trimmedDownEmojis)
  have img: "image_file (emoji_json (generate sd D C A L) ! i) = ?cut"
    by (simp add: json trimPropertiesFromEmoji_def indexed_emoji_def filename_takeWhile)
  have fn: "fileName (emoji_json (generate sd D C A L) ! i) = Some (image_file ?e)"
    by (simp add: json trimPropertiesFromEmoji_def indexed_emoji_def)
  have mem: "?e \<in> set ?full"
    using assms by simp
  have t1: "''fileName'' \<notin> set trimmed_properties"
    by (simp add: trimmed_properties_def)
  have t2: "''image'' \<notin> set trimmed_properties"
    by (simp add: trimmed_properties_def)
  have go: "emoji_data_go (generate sd D C A L) =
            ''// Copyright (c) 2015-present Mattermost, Inc. All Rights Reserved.'' @ [CHR 0x0A]
            @ ''// See LICENSE.txt for license information.'' @ [CHR 0x0A]
            @ ''// This file is automatically generated via '' @ [CHR 0x60] @ ''make emojis''
            @ [CHR 0x60] @ ''. Do not modify it manually.'' @ [CHR 0x0A]
            @ [CHR 0x0A]
            @ ''package model'' @ [CHR 0x0A]
            @ [CHR 0x0A]
            @ ''var SystemEmojis = map[string]string{''
            @ join '', '' ?entries
            @ ''}'' @ [CHR 0x0A]"
    by (simp only: emoji_data_go_generate emojiGo_def emojiImagesByAlias_build_indices)
  have inside: "\<forall>alias \<in> set (short_names ?e).
            \<exists>before after.
              emoji_data_go (generate sd D C A L) =
                before @ [CHR 0x22] @ alias @ [CHR 0x22] @ '': '' @ [CHR 0x22]
                  @ image_file (emoji_json (generate sd D C A L) ! i) @ [CHR 0x22] @ after"
  proof
    fix name
    assume "name \<in> set (short_names ?e)"
    then have "[CHR 0x22] @ name @ [CHR 0x22] @ '': '' @ [CHR 0x22] @ ?cut @ [CHR 0x22]
        \<in> set ?entries"
      using mem by auto
    then obtain b a where "join '', '' ?entries =
        b @ ([CHR 0x22] @ name @ [CHR 0x22] @ '': '' @ [CHR 0x22] @ ?cut @ [CHR 0x22]) @ a"
      using join_contains by blast
    then have "emoji_data_go (generate sd D C A L) =
       (''// Copyright (c) 2015-present Mattermost, Inc. All Rights Reserved.'' @ [CHR 0x0A]
            @ ''// See LICENSE.txt for license information.'' @ [CHR 0x0A]
            @ ''// This file is automatically generated via '' @ [CHR 0x60] @ ''make emojis''
            @ [CHR 0x60] @ ''. Do not modify it manually.'' @ [CHR 0x0A]
            @ [CHR 0x0A]
            @ ''package model'' @ [CHR 0x0A]
            @ [CHR 0x0A]
            @ ''var SystemEmojis = map[string]string{'' @ b)
       @ [CHR 0x22] @ name @ [CHR 0x22] @ '': '' @ [CHR 0x22] @ ?cut @ [CHR 0x22]
       @ (a @ ''}'' @ [CHR 0x0A])"
      unfolding go by simp
    then show "\<exists>before after.
              emoji_data_go (generate sd D C A L) =
                before @ [CHR 0x22] @ name @ [CHR 0x22] @ '': '' @ [CHR 0x22]
                  @ image_file (emoji_json (generate sd D C A L) ! i) @ [CHR 0x22] @ after"
      unfolding img by blast
  qed
  have key: "\<forall>alias \<in> set (short_names ?e).
            CHR 0x22 \<notin> set alias \<longrightarrow>
              entry_key ([CHR 0x22] @ alias @ [CHR 0x22] @ '': '' @ [CHR 0x22]
                  @ image_file (emoji_json (generate sd D C A L) ! i) @ [CHR 0x22]) = alias"
    using entry_key_of_entry by blast
  have css: "convertCategory (category ?e) \<noteq> ''custom'' \<longrightarrow>
      image_file (emoji_json (generate sd D C A L) ! i)
        \<in> fst ` set (emojiFilePositions (build_indices ?full))"
    unfolding img using mem
    by (auto simp: build_indices_def position_keys_index_from filename_takeWhile)
  have rules: "css_emojis (generate sd D C A L) =
      map (\<lambda>entry. ''.emoji-'' @ fst entry @ '' { background-position: '' @ snd entry @ '' }'')
        (emojiFilePositions (build_indices ?full))"
    by (simp only: css_emojis_generate cssEmojis_def)
  show ?thesis
    using img fn t1 t2 go inside key css rules by (intro conjI)
qed


text \<open>
  The first record of the sorted sample list is the grinning face: its image
  \<open>1f600.png\<close> is written as \<open>1f600\<close>, with \<open>fileName\<close> \<open>1f600.png\<close>; the file
  \<open>emoji_data.go\<close> of the sample has nine entries.
\<close>

theorem emoji_json_image_and_fileName_witness:
  "0 < length (fullEmoji sample_shortnames [] sample_data)
   \<and> image_file (emoji_json (generate None sample_data sample_categories sample_shortnames []) ! 0)
       = ''1f600''
   \<and> fileName (emoji_json (generate None sample_data sample_categories sample_shortnames []) ! 0)
       = Some ''1f600.png''
   \<and> ''1f600'' \<in> fst ` set (emojiFilePositions (build_indices (fullEmoji sample_shortnames [] sample_data)))
   \<and> emoji_data_go (generate None sample_data sample_categories sample_shortnames []) =
       ''// Copyright (c) 2015-present Mattermost, Inc. All Rights Reserved.'' @ [CHR 0x0A]
       @ ''// See LICENSE.txt for license information.'' @ [CHR 0x0A]
       @ ''// This file is automatically generated via '' @ [CHR 0x60] @ ''make emojis''
       @ [CHR 0x60] @ ''. Do not modify it manually.'' @ [CHR 0x0A]
       @ [CHR 0x0A]
       @ ''package model'' @ [CHR 0x0A]
       @ [CHR 0x0A]
       @ ''var SystemEmojis = map[string]string{''
       @ [CHR 0x22] @ ''grinning'' @ [CHR 0x22] @ '': '' @ [CHR 0x22] @ ''1f600'' @ [CHR 0x22]
       @ '', '' @ [CHR 0x22] @ ''wave'' @ [CHR 0x22] @ '': '' @ [CHR 0x22] @ ''1f44b'' @ [CHR 0x22]
       @ '', '' @ [CHR 0x22] @ ''+1'' @ [CHR 0x22] @ '': '' @ [CHR 0x22] @ ''1f44d'' @ [CHR 0x22]
       @ '', '' @ [CHR 0x22] @ ''thumbsup'' @ [CHR 0x22] @ '': '' @ [CHR 0x22] @ ''1f44d'' @ [CHR 0x22]
       @ '', '' @ [CHR 0x22] @ ''thumbs_up'' @ [CHR 0x22] @ '': '' @ [CHR 0x22] @ ''1f44d'' @ [CHR 0x22]
       @ '', '' @ [CHR 0x22] @ ''wave_light_skin_tone'' @ [CHR 0x22] @ '': '' @ [CHR 0x22] @ ''1f44b-1f3fb'' @ [CHR 0x22]
       @ '', '' @ [CHR 0x22] @ ''wave_dark_skin_tone'' @ [CHR 0x22] @ '': '' @ [CHR 0x22] @ ''1f44b-1f3ff'' @ [CHR 0x22]
       @ '', '' @ [CHR 0x22] @ ''wave_dark'' @ [CHR 0x22] @ '': '' @ [CHR 0x22] @ ''1f44b-1f3ff'' @ [CHR 0x22]
       @ '', '' @ [CHR 0x22] @ ''mattermost'' @ [CHR 0x22] @ '': '' @ [CHR 0x22] @ ''mattermost'' @ [CHR 0x22]
       @ ''}'' @ [CHR 0x0A]"
proof -
  have len: "0 < length (fullEmoji sample_shortnames [] sample_data)"
    by code_simp
  have img: "takeWhile (\<lambda>c. c \<noteq> CHR ''.'') (image_file (fullEmoji sample_shortnames [] sample_data ! 0))
      = ''1f600''"
    by code_simp
  have orig: "image_file (fullEmoji sample_shortnames [] sample_data ! 0) = ''1f600.png''"
    by code_simp
  have cat: "convertCategory (category (fullEmoji sample_shortnames [] sample_data ! 0)) \<noteq> ''custom''"
    by code_simp
  have whole: "''// Copyright (c) 2015-present Mattermost, Inc. All Rights Reserved.'' @ [CHR 0x0A]
            @ ''// See LICENSE.txt for license information.'' @ [CHR 0x0A]
            @ ''// This file is automatically generated via '' @ [CHR 0x60] @ ''make emojis''
            @ [CHR 0x60] @ ''. Do not modify it manually.'' @ [CHR 0x0A]
            @ [CHR 0x0A]
            @ ''package model'' @ [CHR 0x0A]
            @ [CHR 0x0A]
            @ ''var SystemEmojis = map[string]string{''
            @ join '', ''
                (concat (map (\<lambda>e. map (\<lambda>alias. [CHR 0x22] @ alias @ [CHR 0x22] @ '': ''
                                            @ [CHR 0x22]
                                            @ takeWhile (\<lambda>c. c \<noteq> CHR ''.'') (image_file e)
                                            @ [CHR 0x22])
                                     (short_names e))
                          (fullEmoji sample_shortnames [] sample_data)))
            @ ''}'' @ [CHR 0x0A] =
       ''// Copyright (c) 2015-present Mattermost, Inc. All Rights Reserved.'' @ [CHR 0x0A]
       @ ''// See LICENSE.txt for license information.'' @ [CHR 0x0A]
       @ ''// This file is automatically generated via '' @ [CHR 0x60] @ ''make emojis''
       @ [CHR 0x60] @ ''. Do not modify it manually.'' @ [CHR 0x0A]
       @ [CHR 0x0A]
       @ ''package model'' @ [CHR 0x0A]
       @ [CHR 0x0A]
       @ ''var SystemEmojis = map[string]string{''
       @ [CHR 0x22] @ ''grinning'' @ [CHR 0x22] @ '': '' @ [CHR 0x22] @ ''1f600'' @ [CHR 0x22]
       @ '', '' @ [CHR 0x22] @ ''wave'' @ [CHR 0x22] @ '': '' @ [CHR 0x22] @ ''1f44b'' @ [CHR 0x22]
       @ '', '' @ [CHR 0x22] @ ''+1'' @ [CHR 0x22] @ '': '' @ [CHR 0x22] @ ''1f44d'' @ [CHR 0x22]
       @ '', '' @ [CHR 0x22] @ ''thumbsup'' @ [CHR 0x22] @ '': '' @ [CHR 0x22] @ ''1f44d'' @ [CHR 0x22]
       @ '', '' @ [CHR 0x22] @ ''thumbs_up'' @ [CHR 0x22] @ '': '' @ [CHR 0x22] @ ''1f44d'' @ [CHR 0x22]
       @ '', '' @ [CHR 0x22] @ ''wave_light_skin_tone'' @ [CHR 0x22] @ '': '' @ [CHR 0x22] @ ''1f44b-1f3fb'' @ [CHR 0x22]
       @ '', '' @ [CHR 0x22] @ ''wave_dark_skin_tone'' @ [CHR 0x22] @ '': '' @ [CHR 0x22] @ ''1f44b-1f3ff'' @ [CHR 0x22]
       @ '', '' @ [CHR 0x22] @ ''wave_dark'' @ [CHR 0x22] @ '': '' @ [CHR 0x22] @ ''1f44b-1f3ff'' @ [CHR 0x22]
       @ '', '' @ [CHR 0x22] @ ''mattermost'' @ [CHR 0x22] @ '': '' @ [CHR 0x22] @ ''mattermost'' @ [CHR 0x22]
       @ ''}'' @ [CHR 0x0A]"
    by code_simp
  note names = emoji_json_image_and_fileName [OF len, of None sample_categories]
  have a: "image_file (emoji_json (generate None sample_data sample_categories sample_shortnames []) ! 0)
       = ''1f600''"
    using names [THEN conjunct1] img by (simp only:)
  have b: "fileName (emoji_json (generate None sample_data sample_categories sample_shortnames []) ! 0)
       = Some ''1f600.png''"
    using names [THEN conjunct2, THEN conjunct1] orig by (simp only:)
  have c: "emoji_data_go (generate None sample_data sample_categories sample_shortnames []) =
       ''// Copyright (c) 2015-present Mattermost, Inc. All Rights Reserved.'' @ [CHR 0x0A]
       @ ''// See LICENSE.txt for license information.'' @ [CHR 0x0A]
       @ ''// This file is automatically generated via '' @ [CHR 0x60] @ ''make emojis''
       @ [CHR 0x60] @ ''. Do not modify it manually.'' @ [CHR 0x0A]
       @ [CHR 0x0A]
       @ ''package model'' @ [CHR 0x0A]
       @ [CHR 0x0A]
       @ ''var SystemEmojis = map[string]string{''
       @ [CHR 0x22] @ ''grinning'' @ [CHR 0x22] @ '': '' @ [CHR 0x22] @ ''1f600'' @ [CHR 0x22]
       @ '', '' @ [CHR 0x22] @ ''wave'' @ [CHR 0x22] @ '': '' @ [CHR 0x22] @ ''1f44b'' @ [CHR 0x22]
       @ '', '' @ [CHR 0x22] @ ''+1'' @ [CHR 0x22] @ '': '' @ [CHR 0x22] @ ''1f44d'' @ [CHR 0x22]
       @ '', '' @ [CHR 0x22] @ ''thumbsup'' @ [CHR 0x22] @ '': '' @ [CHR 0x22] @ ''1f44d'' @ [CHR 0x22]
       @ '', '' @ [CHR 0x22] @ ''thumbs_up'' @ [CHR 0x22] @ '': '' @ [CHR 0x22] @ ''1f44d'' @ [CHR 0x22]
       @ '', '' @ [CHR 0x22] @ ''wave_light_skin_tone'' @ [CHR 0x22] @ '': '' @ [CHR 0x22] @ ''1f44b-1f3fb'' @ [CHR 0x22]
       @ '', '' @ [CHR 0x22] @ ''wave_dark_skin_tone'' @ [CHR 0x22] @ '': '' @ [CHR 0x22] @ ''1f44b-1f3ff'' @ [CHR 0x22]
       @ '', '' @ [CHR 0x22] @ ''wave_dark'' @ [CHR 0x22] @ '': '' @ [CHR 0x22] @ ''1f44b-1f3ff'' @ [CHR 0x22]
       @ '', '' @ [CHR 0x22] @ ''mattermost'' @ [CHR 0x22] @ '': '' @ [CHR 0x22] @ ''mattermost'' @ [CHR 0x22]
       @ ''}'' @ [CHR 0x0A]"
    using names [THEN conjunct2, THEN conjunct2, THEN conjunct2, THEN conjunct2, THEN conjunct1]
      whole
    by (rule trans)
  have d: "''1f600'' \<in> fst ` set (emojiFilePositions (build_indices (fullEmoji sample_shortnames [] sample_data)))"
    using names [THEN conjunct2, THEN conjunct2, THEN conjunct2, THEN conjunct2, THEN conjunct2,
        THEN conjunct2, THEN conjunct2, THEN conjunct1] cat a
    by (simp only: simp_thms)
  show ?thesis
    using len a b d c by (intro conjI)
qed


subsection \<open>Category order (C7)\<close>

text \<open>
  The specification lists every key of the category table (C7). The script drops the key
  \<open>Component\<close>: for the sample table, which has it, the generated order is not the
  list of all converted keys between \<open>recent\<close> and \<open>custom\<close>.
\<close>

theorem categoryNames_Component_counterexample:
  "CategoryNames (generate None sample_data sample_categories sample_shortnames [])
     \<noteq> [''recent''] @ map convertCategory (map fst sample_categories) @ [''custom'']"
  by code_simp

text \<open>
  C7 (amended). The category order of the generated module is \<open>recent\<close>, then the keys of
  the category table other than \<open>Component\<close>, in the table's order, each converted to lower
  case with its first \<open>" & "\<close> replaced by \<open>-\<close>, then \<open>custom\<close>.
\<close>

theorem categoryNames_order:
  "CategoryNames (generate sd D C A L) =
     [''recent''] @ map convertCategory (filter (\<lambda>key. key \<noteq> ''Component'') (map fst C))
       @ [''custom'']
   \<and> (\<forall>key. convertCategory key = replace_first '' & '' ''-'' (map lower_char key))"
  by (simp add: generate_def Let_def categoryNames_def categoryList_def convertCategory_def
      toLowerCase_def)

text \<open>On the sample table: the two dataset categories, without \<open>Component\<close>.\<close>

theorem categoryNames_order_witness:
  "CategoryNames (generate None sample_data sample_categories sample_shortnames []) =
     [''recent'', ''smileys-emotion'', ''people-body'', ''custom'']"
proof -
  have "[''recent''] @ map convertCategory
          (filter (\<lambda>key. key \<noteq> ''Component'') (map fst sample_categories)) @ [''custom'']
      = [''recent'', ''smileys-emotion'', ''people-body'', ''custom'']"
    by code_simp
  then show ?thesis
    using categoryNames_order [of None sample_data sample_categories sample_shortnames "[]"]
    by metis
qed

subsection \<open>Skin expansion (C3)\<close>

text \<open>
  C3. A record whose skin-variation table has \<open>k\<close> entries yields exactly \<open>k\<close> new records,
  one per key and in the order of the keys. The short name of each is the base short name,
  \<open>_\<close>, and the skin tags of the codepoints of the key (the key split at \<open>-\<close>) joined by
  \<open>_\<close>; its alias list is every base alias with the same suffix; its display name is the
  base name, \<open>": "\<close>, and the skin labels joined by \<open>", "\<close>; its category is the base's.
  The expansion appends these records, for every filtered record in turn, behind the
  filtered list. A codepoint outside the table of five contributes the empty string.
\<close>

theorem genSkinVariations_complete:
  assumes "skin_variations emoji = Some table"
  shows "length (genSkinVariations emoji) = length table
       \<and> (\<forall>i < length table.
            short_name (genSkinVariations emoji ! i) =
              short_name emoji @ ''_'' @
                join ''_'' (map (\<lambda>code. undefined_as_empty (skinCodes code))
                             (split_on CHR ''-'' (fst (table ! i))))
          \<and> short_names (genSkinVariations emoji ! i) =
              map (\<lambda>alias. alias @ ''_'' @
                     join ''_'' (map (\<lambda>code. undefined_as_empty (skinCodes code))
                                  (split_on CHR ''-'' (fst (table ! i)))))
                (short_names emoji)
          \<and> name (genSkinVariations emoji ! i) =
              name emoji @ '': '' @
                join '', '' (map (\<lambda>code. undefined_as_empty (skinNames code))
                              (split_on CHR ''-'' (fst (table ! i))))
          \<and> category (genSkinVariations emoji ! i) = category emoji)
       \<and> (\<forall>filtered. emoji \<in> set filtered \<longrightarrow>
            set (genSkinVariations emoji) \<subseteq> set (withSkinVariations filtered))
       \<and> (\<forall>filtered. withSkinVariations filtered =
            filtered @ concat (map genSkinVariations filtered))"
proof -
  have gen: "genSkinVariations emoji = map (genSkinVariation emoji) table"
    using assms by (simp add: genSkinVariations_def)
  have len: "length (genSkinVariations emoji) = length table"
    by (simp add: gen)
  have fields: "\<forall>i < length table.
            short_name (genSkinVariations emoji ! i) =
              short_name emoji @ ''_'' @
                join ''_'' (map (\<lambda>code. undefined_as_empty (skinCodes code))
                             (split_on CHR ''-'' (fst (table ! i))))
          \<and> short_names (genSkinVariations emoji ! i) =
              map (\<lambda>alias. alias @ ''_'' @
                     join ''_'' (map (\<lambda>code. undefined_as_empty (skinCodes code))
                                  (split_on CHR ''-'' (fst (table ! i)))))
                (short_names emoji)
          \<and> name (genSkinVariations emoji ! i) =
              name emoji @ '': '' @
                join '', '' (map (\<lambda>code. undefined_as_empty (skinNames code))
                              (split_on CHR ''-'' (fst (table ! i))))
          \<and> category (genSkinVariations emoji ! i) = category emoji"
    by (simp add: gen genSkinVariation_def Let_def skinShortName_def skinName_def)
  have sub: "\<forall>filtered. emoji \<in> set filtered \<longrightarrow>
            set (genSkinVariations emoji) \<subseteq> set (withSkinVariations filtered)"
    by (auto simp: withSkinVariations_eq)
  have whole: "\<forall>filtered. withSkinVariations filtered =
            filtered @ concat (map genSkinVariations filtered)"
    by (simp add: withSkinVariations_eq)
  show ?thesis
    using len fields sub whole by (intro conjI)
qed

text \<open>The second variation of the waving hand is the dark one.\<close>

theorem genSkinVariations_complete_witness:
  "skin_variations wave =
     Some [(''1F3FB'', \<lparr> v_unified = ''1F44B-1F3FB'', v_image = ''1f44b-1f3fb.png'',
                        v_sheet_x = Some 13, v_sheet_y = Some 9,
                        v_vendor = [(''added_in'', ''2.0'')] \<rparr>),
          (''1F3FF'', \<lparr> v_unified = ''1F44B-1F3FF'', v_image = ''1f44b-1f3ff.png'',
                        v_sheet_x = Some 13, v_sheet_y = Some 13,
                        v_vendor = [(''added_in'', ''2.0'')] \<rparr>)]
   \<and> length (genSkinVariations wave) = 2
   \<and> short_name (genSkinVariations wave ! 1) = ''wave_dark_skin_tone''
   \<and> name (genSkinVariations wave ! 1) = ''WAVING HAND SIGN: DARK SKIN TONE''
   \<and> category (genSkinVariations wave ! 1) = ''People & Body''"
proof -
  let ?table = "[(''1F3FB'', \<lparr> v_unified = ''1F44B-1F3FB'', v_image = ''1f44b-1f3fb.png'',
                        v_sheet_x = Some 13, v_sheet_y = Some 9,
                        v_vendor = [(''added_in'', ''2.0'')] \<rparr>),
          (''1F3FF'', \<lparr> v_unified = ''1F44B-1F3FF'', v_image = ''1f44b-1f3ff.png'',
                        v_sheet_x = Some 13, v_sheet_y = Some 13,
                        v_vendor = [(''added_in'', ''2.0'')] \<rparr>)]"
  have table: "skin_variations wave = Some ?table"
    by (simp add: wave_def)
  have len: "length ?table = 2" and one: "(1::nat) < length ?table"
    by simp_all
  have sn: "short_name wave @ ''_'' @
      join ''_'' (map (\<lambda>code. undefined_as_empty (skinCodes code))
                   (split_on CHR ''-'' (fst (?table ! 1)))) = ''wave_dark_skin_tone''"
    by code_simp
  have nm: "name wave @ '': '' @
      join '', '' (map (\<lambda>code. undefined_as_empty (skinNames code))
                    (split_on CHR ''-'' (fst (?table ! 1)))) = ''WAVING HAND SIGN: DARK SKIN TONE''"
    by code_simp
  have cat: "category wave = ''People & Body''"
    by (simp add: wave_def)
  show ?thesis
    using genSkinVariations_complete [OF table] table len one sn nm cat
    by metis
qed

subsection \<open>Alias augmentation (C4)\<close>

text \<open>
  C4. The old short names are added after the skin expansion, to the whole expanded list
  (the filtered records followed by all their variations; the built-in entry is appended
  afterwards). A record, base or variation, whose short name is a key of the compatibility
  table gets the table's names appended to its alias list; a record whose short name is
  not a key is left as it is. The sort that follows only reorders these records.
\<close>

theorem additional_shortnames_after_expansion:
  "unsortedEmoji A L D =
     map (addShortnames A)
       (filteredEmojiJson L D @ concat (map genSkinVariations (filteredEmojiJson L D)))
       @ [mattermost]
   \<and> (\<forall>emoji extra. A (short_name emoji) = Some extra \<longrightarrow>
         addShortnames A emoji = emoji \<lparr> short_names := short_names emoji @ extra \<rparr>)
   \<and> (\<forall>emoji. short_name emoji \<notin> dom A \<longrightarrow> addShortnames A emoji = emoji)
   \<and> mset (fullEmoji A L D) = mset (unsortedEmoji A L D)"
  by (auto simp: unsortedEmoji_def withSkinVariations_eq addShortnames_def fullEmoji_def
      mset_array_sort domIff)

text \<open>
  In the sample the table has the key \<open>+1\<close> of a base record and the key
  \<open>wave_dark_skin_tone\<close> of a variation: both get their extra alias, the others keep
  their lists.
\<close>

theorem additional_shortnames_after_expansion_witness:
  "map short_names (unsortedEmoji sample_shortnames [] sample_data) =
     [[''+1'', ''thumbsup'', ''thumbs_up''], [''wave''], [''grinning''],
      [''wave_light_skin_tone''], [''wave_dark_skin_tone'', ''wave_dark''], [''mattermost'']]
   \<and> sample_shortnames (short_name thumbsup) = Some [''thumbs_up'']
   \<and> short_names (addShortnames sample_shortnames thumbsup) = [''+1'', ''thumbsup'', ''thumbs_up'']
   \<and> short_name grinning \<notin> dom sample_shortnames
   \<and> addShortnames sample_shortnames grinning = grinning"
proof -
  have all: "map short_names (map (addShortnames sample_shortnames)
       (filteredEmojiJson [] sample_data
          @ concat (map genSkinVariations (filteredEmojiJson [] sample_data)))
       @ [mattermost]) =
     [[''+1'', ''thumbsup'', ''thumbs_up''], [''wave''], [''grinning''],
      [''wave_light_skin_tone''], [''wave_dark_skin_tone'', ''wave_dark''], [''mattermost'']]"
    by code_simp
  have key: "sample_shortnames (short_name thumbsup) = Some [''thumbs_up'']"
    by code_simp
  have upd: "short_names (thumbsup \<lparr> short_names := short_names thumbsup @ [''thumbs_up''] \<rparr>)
      = [''+1'', ''thumbsup'', ''thumbs_up'']"
    by code_simp
  have nokey: "short_name grinning \<notin> dom sample_shortnames"
    by (simp add: domIff sample_shortnames_def grinning_def)
  show ?thesis
    using additional_shortnames_after_expansion [of sample_shortnames "[]" sample_data]
      all key upd nokey
    by metis
qed


subsection \<open>The alias index (C6)\<close>

lemma aliases_index_emoji:
  "emojiIndicesByAlias (index_emoji i e s) =
     emojiIndicesByAlias s @ map (\<lambda>alias. (alias, i)) (short_names e)"
  by (simp add: index_emoji_def Let_def)

lemma alias_entry_index_from:
  "(alias, j) \<in> set (emojiIndicesByAlias (index_from i es s)) \<longleftrightarrow>
     (alias, j) \<in> set (emojiIndicesByAlias s)
     \<or> (i \<le> j \<and> j < i + length es \<and> alias \<in> set (short_names (es ! (j - i))))"
proof (induction es arbitrary: i s)
  case Nil
  then show ?case by auto
next
  case (Cons e es)
  have here: "(alias, j) \<in> set (emojiIndicesByAlias (index_emoji i e s)) \<longleftrightarrow>
      (alias, j) \<in> set (emojiIndicesByAlias s) \<or> (j = i \<and> alias \<in> set (short_names e))"
    by (auto simp: aliases_index_emoji)
  have later: "Suc i \<le> j \<Longrightarrow> (e # es) ! (j - i) = es ! (j - Suc i)"
    by (simp add: nth_Cons')
  show ?case
  proof (cases "j = i")
    case True
    then show ?thesis
      using Cons.IH [of "Suc i" "index_emoji i e s"] here by simp
  next
    case False
    then show ?thesis
      using Cons.IH [of "Suc i" "index_emoji i e s"] here later by auto
  qed
qed

lemma alias_entry_iff:
  "(alias, j) \<in> set (emojiIndicesByAlias (build_indices full)) \<longleftrightarrow>
     j < length full \<and> alias \<in> set (short_names (full ! j))"
  by (simp add: build_indices_def alias_entry_index_from no_indices_def)

lemma short_names_json:
  "i < length full \<Longrightarrow> short_names (trimmedDownEmojis full ! i) = short_names (full ! i)"
  by (simp add: trimmedDownEmojis_def trimPropertiesFromEmoji_def indexed_emoji_def)

lemma EmojiIndicesByAlias_generate:
  "EmojiIndicesByAlias (generate sd D C A L) = emojiIndicesByAlias (build_indices (fullEmoji A L D))"
  by (simp add: generate_def Let_def)

text \<open>
  C6. Every pair \<open>(alias, i)\<close> of the alias table of the generated module points to a
  position \<open>i\<close> of the sorted list (and of the array in \<open>emoji.json\<close>, which has the same
  positions and the same alias lists) whose record has \<open>alias\<close> among its short names;
  every alias of every record, whatever its origin, has its pair; and the \<open>Map\<close> built from
  the pairs, where the last pair of an alias wins, still points to such a record.
\<close>

theorem alias_index_points_to_record:
  "(\<forall>(alias, i) \<in> set (EmojiIndicesByAlias (generate sd D C A L)).
      i < length (emoji_json (generate sd D C A L))
    \<and> alias \<in> set (short_names (emoji_json (generate sd D C A L) ! i))
    \<and> alias \<in> set (short_names (fullEmoji A L D ! i)))
 \<and> (\<forall>i < length (fullEmoji A L D). \<forall>alias \<in> set (short_names (fullEmoji A L D ! i)).
      (alias, i) \<in> set (EmojiIndicesByAlias (generate sd D C A L)))
 \<and> (\<forall>alias i. map_of (rev (EmojiIndicesByAlias (generate sd D C A L))) alias = Some i \<longrightarrow>
      i < length (emoji_json (generate sd D C A L))
    \<and> alias \<in> set (short_names (emoji_json (generate sd D C A L) ! i)))"
proof -
  let ?full = "fullEmoji A L D"
  let ?pairs = "EmojiIndicesByAlias (generate sd D C A L)"
  have entry: "\<And>alias i. (alias, i) \<in> set ?pairs \<longleftrightarrow>
      i < length ?full \<and> alias \<in> set (short_names (?full ! i))"
    by (simp add: EmojiIndicesByAlias_generate alias_entry_iff)
  have json: "\<And>i. i < length ?full \<Longrightarrow>
      short_names (emoji_json (generate sd D C A L) ! i) = short_names (?full ! i)"
    by (simp add: emoji_json_generate short_names_json)
  have len: "length (emoji_json (generate sd D C A L)) = length ?full"
    by (simp add: emoji_json_generate length_trimmedDownEmojis)
  have a: "\<forall>(alias, i) \<in> set ?pairs.
      i < length (emoji_json (generate sd D C A L))
    \<and> alias \<in> set (short_names (emoji_json (generate sd D C A L) ! i))
    \<and> alias \<in> set (short_names (?full ! i))"
    using entry json len by auto
  have b: "\<forall>i < length ?full. \<forall>alias \<in> set (short_names (?full ! i)). (alias, i) \<in> set ?pairs"
    using entry by blast
  have c: "\<forall>alias i. map_of (rev ?pairs) alias = Some i \<longrightarrow>
      i < length (emoji_json (generate sd D C A L))
    \<and> alias \<in> set (short_names (emoji_json (generate sd D C A L) ! i))"
  proof (intro allI impI)
    fix name i
    assume "map_of (rev ?pairs) name = Some i"
    then have "(name, i) \<in> set ?pairs"
      using map_of_SomeD by fastforce
    then show "i < length (emoji_json (generate sd D C A L))
      \<and> name \<in> set (short_names (emoji_json (generate sd D C A L) ! i))"
      using a by blast
  qed
  show ?thesis
    using a b c by (intro conjI)
qed

text \<open>
  In the sample the augmented alias \<open>wave_dark\<close> of a skin variation is mapped to
  position 4, and the record there has it.
\<close>

theorem alias_index_points_to_record_witness:
  "map_of (rev (EmojiIndicesByAlias (generate None sample_data sample_categories sample_shortnames [])))
      ''wave_dark'' = Some 4
   \<and> ''wave_dark'' \<in> set (short_names
        (emoji_json (generate None sample_data sample_categories sample_shortnames []) ! 4))
   \<and> 2 < length (fullEmoji sample_shortnames [] sample_data)
   \<and> ''thumbs_up'' \<in> set (short_names (fullEmoji sample_shortnames [] sample_data ! 2))
   \<and> (''thumbs_up'', 2) \<in> set (EmojiIndicesByAlias
        (generate None sample_data sample_categories sample_shortnames []))"
proof -
  have look: "map_of (rev (EmojiIndicesByAlias
      (generate None sample_data sample_categories sample_shortnames []))) ''wave_dark'' = Some 4"
    by code_simp
  have len: "2 < length (fullEmoji sample_shortnames [] sample_data)"
    by code_simp
  have mem: "''thumbs_up'' \<in> set (short_names (fullEmoji sample_shortnames [] sample_data ! 2))"
    by code_simp
  show ?thesis
    using alias_index_points_to_record
      [of None sample_data sample_categories sample_shortnames "[]"] look len mem
    by blast
qed

subsection \<open>The exclusion filter (C1)\<close>

lemma filteredEmojiJson_disjoint:
  "filteredEmojiJson L D = filter (\<lambda>e. set (short_names e) \<inter> set L = {}) D"
  unfolding filteredEmojiJson_def
  by (rule filter_cong) (auto simp: list_ex_iff)

lemma filteredEmojiJson_Nil: "filteredEmojiJson [] D = D"
  by (simp add: filteredEmojiJson_def)

lemma unsortedEmoji_filtered:
  "unsortedEmoji A L D = unsortedEmoji A [] (filteredEmojiJson L D)"
  by (simp add: unsortedEmoji_def filteredEmojiJson_Nil)

lemma fullEmoji_filtered: "fullEmoji A L D = fullEmoji A [] (filteredEmojiJson L D)"
  by (simp add: fullEmoji_def unsortedEmoji_filtered [of A L D])

lemma set_fullEmoji:
  "set (fullEmoji A L D) =
     insert mattermost
       (addShortnames A ` (\<Union>b \<in> set (filteredEmojiJson L D). insert b (set (genSkinVariations b))))"
  by (auto simp: fullEmoji_def set_array_sort unsortedEmoji_def withSkinVariations_eq)

text \<open>
  C1. For every exclusion list, the filter keeps exactly the dataset records none of whose
  short names is in the list, and it runs before everything else: the sorted list
  consists of the built-in entry and of the kept records and their skin variations (with
  their added aliases), the array of \<open>emoji.json\<close> is that list record by record, and every
  artifact (the array, the index tables of the module, the table of \<open>emoji_data.go\<close>, the
  stylesheet rules) is what the run without exclusion list generates from the kept
  records alone. So neither an excluded record nor a variation of it reaches any of them.
\<close>

theorem excluded_emoji_removed:
  "filteredEmojiJson L D = filter (\<lambda>e. set (short_names e) \<inter> set L = {}) D
   \<and> set (fullEmoji A L D) =
       insert mattermost
         (addShortnames A `
            (\<Union>b \<in> set (filteredEmojiJson L D). insert b (set (genSkinVariations b))))
   \<and> emoji_json (generate sd D C A L) =
       map (\<lambda>e. trimPropertiesFromEmoji (indexed_emoji e)) (fullEmoji A L D)
   \<and> generate sd D C A L = generate sd (filteredEmojiJson L D) C A []"
proof -
  have "generate sd D C A L = generate sd (filteredEmojiJson L D) C A []"
    by (simp add: generate_def fullEmoji_filtered [of A L D])
  moreover have "emoji_json (generate sd D C A L) =
       map (\<lambda>e. trimPropertiesFromEmoji (indexed_emoji e)) (fullEmoji A L D)"
    by (simp add: emoji_json_generate trimmedDownEmojis_def)
  ultimately show ?thesis
    using filteredEmojiJson_disjoint [of L D] set_fullEmoji [of A L D] by (intro conjI)
qed

text \<open>
  Excluding \<open>wave\<close> from the sample removes the waving hand and both its variations:
  three records and their aliases remain.
\<close>

theorem excluded_emoji_removed_witness:
  "filteredEmojiJson [''wave''] sample_data = [thumbsup, grinning]
   \<and> map short_name (emoji_json (generate None sample_data sample_categories sample_shortnames [''wave'']))
       = [''grinning'', ''+1'', ''mattermost'']
   \<and> EmojiIndicesByAlias (generate None sample_data sample_categories sample_shortnames [''wave''])
       = [(''grinning'', 0), (''+1'', 1), (''thumbsup'', 1), (''thumbs_up'', 1), (''mattermost'', 2)]"
proof -
  have f: "filter (\<lambda>e. set (short_names e) \<inter> set [''wave''] = {}) sample_data = [thumbsup, grinning]"
    by code_simp
  have j: "map short_name (emoji_json
      (generate None [thumbsup, grinning] sample_categories sample_shortnames []))
       = [''grinning'', ''+1'', ''mattermost'']"
    by code_simp
  have a: "EmojiIndicesByAlias
      (generate None [thumbsup, grinning] sample_categories sample_shortnames [])
       = [(''grinning'', 0), (''+1'', 1), (''thumbsup'', 1), (''thumbs_up'', 1), (''mattermost'', 2)]"
    by code_simp
  note removed =
    excluded_emoji_removed [of "[''wave'']" sample_data sample_shortnames None sample_categories]
  have kept: "filteredEmojiJson [''wave''] sample_data = [thumbsup, grinning]"
    using removed [THEN conjunct1] f by (simp only:)
  have same: "generate None sample_data sample_categories sample_shortnames [''wave''] =
      generate None [thumbsup, grinning] sample_categories sample_shortnames []"
    using removed [THEN conjunct2, THEN conjunct2, THEN conjunct2] kept by (simp only:)
  show ?thesis
    using kept j a by (simp only: same simp_thms)
qed


text \<open>
  The filter looks at the short names of the dataset. A name of the exclusion list that
  the compatibility table adds to a kept record afterwards is still generated.
\<close>

lemma excluded_name_added_as_alias:
  "(''thumbs_up'', 2) \<in> set (EmojiIndicesByAlias
      (generate None sample_data sample_categories sample_shortnames [''thumbs_up'']))"
  by code_simp

subsection \<open>The exclusion file (C8)\<close>



subsection \<open>Sprite positions (C5)\<close>

lemma category_addShortnames: "category (addShortnames A e) = category e"
  by (simp add: addShortnames_def split: option.splits)

lemma category_genSkinVariations: "v \<in> set (genSkinVariations b) \<Longrightarrow> category v = category b"
  by (auto simp: genSkinVariations_def genSkinVariation_def Let_def split: option.splits)

lemma set_filteredEmojiJson: "set (filteredEmojiJson L D) \<subseteq> set D"
  by (auto simp: filteredEmojiJson_def)

lemma category_fullEmoji:
  assumes "e \<in> set (fullEmoji A L D)"
  shows "e = mattermost \<or> category e \<in> category ` set D"
proof (cases "e = mattermost")
  case True
  then show ?thesis by simp
next
  case False
  then obtain b r where b: "b \<in> set (filteredEmojiJson L D)"
    and r: "r = b \<or> r \<in> set (genSkinVariations b)" and e: "e = addShortnames A r"
    using assms unfolding set_fullEmoji by auto
  have "category r = category b"
    using r category_genSkinVariations by auto
  then have "category e = category b"
    by (simp add: e category_addShortnames)
  then show ?thesis
    using b set_filteredEmojiJson by fastforce
qed

lemma custom_mattermost: "convertCategory (category mattermost) = ''custom''"
  by code_simp

lemma file_position_coordinates:
  "sheet_x e = Some x \<Longrightarrow> sheet_y e = Some y \<Longrightarrow>
     file_position e = ''-'' @ show_nat (x * 66) @ ''px -'' @ show_nat (y * 66) @ ''px;''"
  by (simp add: file_position_def show_number_def EMOJI_SIZE_PADDED_def EMOJI_SIZE_def)

lemma positions_build_indices:
  "map_of (emojiFilePositions (build_indices full)) =
     map_of (rev (map (\<lambda>e. (filename e, file_position e))
                   (filter (\<lambda>e. convertCategory (category e) \<noteq> ''custom'') full)))"
  by (simp add: build_indices_def positions_index_from no_indices_def)

text \<open>
  C5. In a dataset as the data model describes it (no record of the dataset is in the
  category \<open>custom\<close>, and the image base names of the records are pairwise different),
  every record of the sorted list other than the built-in entry has a sprite position
  under its image base name, and the built-in entry has none. The position of a record
  with sheet coordinates \<open>(x, y)\<close> is the text \<open>-(x * 66)px -(y * 66)px;\<close>, 66 being the tile
  size 64 plus 2; for \<open>(3, 0)\<close> it is \<open>-198px -0px;\<close>.
\<close>

theorem sprite_positions:
  assumes cats: "\<forall>d \<in> set D. convertCategory (category d) \<noteq> ''custom''"
    and files: "distinct (map filename (fullEmoji A L D))"
    and mem: "e \<in> set (fullEmoji A L D)"
  shows "(e \<noteq> mattermost \<longrightarrow>
            map_of (emojiFilePositions (build_indices (fullEmoji A L D))) (filename e)
              = Some (file_position e))
       \<and> (e = mattermost \<longrightarrow>
            map_of (emojiFilePositions (build_indices (fullEmoji A L D))) (filename e) = None)
       \<and> (\<forall>x y. sheet_x e = Some x \<and> sheet_y e = Some y \<longrightarrow>
            file_position e = ''-'' @ show_nat (x * 66) @ ''px -'' @ show_nat (y * 66) @ ''px;'')
       \<and> EMOJI_SIZE = 64 \<and> EMOJI_SIZE_PADDED = EMOJI_SIZE + 2
       \<and> (sheet_x e = Some 3 \<and> sheet_y e = Some 0 \<longrightarrow> file_position e = ''-198px -0px;'')"
proof -
  let ?full = "fullEmoji A L D"
  let ?pos = "map (\<lambda>e. (filename e, file_position e))
                (filter (\<lambda>e. convertCategory (category e) \<noteq> ''custom'') ?full)"
  have keys: "map fst ?pos = map filename (filter (\<lambda>e. convertCategory (category e) \<noteq> ''custom'') ?full)"
    by (simp add: comp_def)
  have dist: "distinct (map fst (rev ?pos))"
    unfolding rev_map [symmetric] distinct_rev keys
    using files by (simp add: distinct_map_filter)
  have noncustom: "e \<noteq> mattermost \<Longrightarrow> convertCategory (category e) \<noteq> ''custom''"
    using category_fullEmoji [OF mem] cats by auto
  have a: "e \<noteq> mattermost \<longrightarrow>
      map_of (emojiFilePositions (build_indices ?full)) (filename e) = Some (file_position e)"
  proof
    assume "e \<noteq> mattermost"
    then have "(filename e, file_position e) \<in> set (rev ?pos)"
      using mem noncustom by auto
    then show "map_of (emojiFilePositions (build_indices ?full)) (filename e) = Some (file_position e)"
      unfolding positions_build_indices using dist by (rule map_of_is_SomeI [rotated])
  qed
  have b: "e = mattermost \<longrightarrow>
      map_of (emojiFilePositions (build_indices ?full)) (filename e) = None"
  proof
    assume cust: "e = mattermost"
    have "filename e \<notin> fst ` set (rev ?pos)"
    proof
      assume "filename e \<in> fst ` set (rev ?pos)"
      then obtain e' where e': "e' \<in> set ?full" "convertCategory (category e') \<noteq> ''custom''"
        "filename e' = filename e"
        by auto
      then have "e' = e"
        using files mem by (meson distinct_map inj_onD)
      then show False
        using e' cust custom_mattermost by simp
    qed
    then show "map_of (emojiFilePositions (build_indices ?full)) (filename e) = None"
      unfolding positions_build_indices by (simp only: map_of_eq_None_iff not_False_eq_True)
  qed
  have c: "\<forall>x y. sheet_x e = Some x \<and> sheet_y e = Some y \<longrightarrow>
      file_position e = ''-'' @ show_nat (x * 66) @ ''px -'' @ show_nat (y * 66) @ ''px;''"
    using file_position_coordinates by blast
  have d: "EMOJI_SIZE = 64 \<and> EMOJI_SIZE_PADDED = EMOJI_SIZE + 2"
    by (simp add: EMOJI_SIZE_PADDED_def EMOJI_SIZE_def)
  have n198: "show_nat 198 = ''198''" and n0: "show_nat 0 = ''0''"
    by code_simp+
  have f: "sheet_x e = Some 3 \<and> sheet_y e = Some 0 \<longrightarrow> file_position e = ''-198px -0px;''"
    using file_position_coordinates [of e 3 0] by (simp add: n198 n0)
  show ?thesis
    using a b c d f by blast
qed


text \<open>
  The grinning face of the sample sits at \<open>(3, 0)\<close> of the sheet; the key \<open>mattermost\<close> has
  no position.
\<close>

theorem sprite_positions_witness:
  "map (\<lambda>d. convertCategory (category d)) sample_data =
     [''people-body'', ''people-body'', ''smileys-emotion'']
   \<and> distinct (map filename (fullEmoji sample_shortnames [] sample_data))
   \<and> grinning \<in> set (fullEmoji sample_shortnames [] sample_data)
   \<and> mattermost \<in> set (fullEmoji sample_shortnames [] sample_data)
   \<and> map_of (emojiFilePositions (build_indices (fullEmoji sample_shortnames [] sample_data)))
        ''1f600'' = Some ''-198px -0px;''
   \<and> map_of (emojiFilePositions (build_indices (fullEmoji sample_shortnames [] sample_data)))
        ''mattermost'' = None"
proof -
  have cats: "\<forall>d \<in> set sample_data. convertCategory (category d) \<noteq> ''custom''"
    by code_simp
  have files: "distinct (map filename (fullEmoji sample_shortnames [] sample_data))"
    by code_simp
  have g: "grinning \<in> set (fullEmoji sample_shortnames [] sample_data)"
    by code_simp
  have m: "mattermost \<in> set (fullEmoji sample_shortnames [] sample_data)"
    by code_simp
  have ng: "grinning \<noteq> mattermost" and fg: "filename grinning = ''1f600''"
    and fm: "filename mattermost = ''mattermost''"
    and xy: "sheet_x grinning = Some 3 \<and> sheet_y grinning = Some 0"
    by code_simp+
  have "map_of (emojiFilePositions (build_indices (fullEmoji sample_shortnames [] sample_data)))
        ''1f600'' = Some ''-198px -0px;''"
    using sprite_positions [OF cats files g] ng fg xy by metis
  moreover have "map_of (emojiFilePositions (build_indices (fullEmoji sample_shortnames [] sample_data)))
        ''mattermost'' = None"
    using sprite_positions [OF cats files m] fm by metis
  moreover have "map (\<lambda>d. convertCategory (category d)) sample_data =
     [''people-body'', ''people-body'', ''smileys-emotion'']"
    by code_simp
  ultimately show ?thesis
    using files g m by (intro conjI)
qed

subsection \<open>The order of the sorted list (C2)\<close>

lemma SortCompare_keys:
  "sort_order a = Some x \<Longrightarrow> sort_order b = Some y \<Longrightarrow>
     SortCompare sort_order_difference a b = x - y"
  by (simp add: SortCompare_def sort_order_difference_def)

lemma SortCompare_missing:
  "sort_order a = None \<or> sort_order b = None \<Longrightarrow> SortCompare sort_order_difference a b = 0"
  by (auto simp: SortCompare_def sort_order_difference_def split: option.splits)

lemma sort_insert_missing:
  "sort_order x = None \<Longrightarrow> sort_insert sort_order_difference x ys = x # ys"
  by (cases ys) (simp_all add: SortCompare_missing)

lemma array_sort_missing:
  "\<forall>n \<in> set ns. sort_order n = None \<Longrightarrow> array_sort sort_order_difference ns = ns"
  by (induction ns) (simp_all add: sort_insert_missing)

lemma sort_insert_before_missing:
  "\<forall>n \<in> set ns. sort_order n = None \<Longrightarrow>
     sort_insert sort_order_difference x (ks @ ns) = sort_insert sort_order_difference x ks @ ns"
proof (induction ks)
  case Nil
  then show ?case
    by (cases ns) (simp_all add: SortCompare_missing)
next
  case (Cons k ks)
  then show ?case by simp
qed

lemma sort_insert_keys:
  "sort_order x \<noteq> None \<Longrightarrow> \<forall>k \<in> set ks. sort_order k \<noteq> None \<Longrightarrow>
     sort_insert sort_order_difference x ks = insort_key key_missing_as_zero x ks"
proof (induction ks)
  case Nil
  then show ?case by simp
next
  case (Cons k ks)
  from Cons.prems obtain a b where "sort_order x = Some a" "sort_order k = Some b"
    by auto
  then have "(SortCompare sort_order_difference x k > 0) = (\<not> key_missing_as_zero x \<le> key_missing_as_zero k)"
    by (auto simp: SortCompare_keys key_missing_as_zero_def)
  then show ?case
    using Cons by simp
qed

lemma array_sort_keys_then_missing:
  assumes "\<forall>k \<in> set ks. sort_order k \<noteq> None" and "\<forall>n \<in> set ns. sort_order n = None"
  shows "array_sort sort_order_difference (ks @ ns) = sort_key key_missing_as_zero ks @ ns"
  using assms(1)
proof (induction ks)
  case Nil
  then show ?case
    using assms(2) by (simp add: array_sort_missing)
next
  case (Cons k ks)
  have "array_sort sort_order_difference ((k # ks) @ ns) =
      sort_insert sort_order_difference k (sort_key key_missing_as_zero ks @ ns)"
    using Cons by simp
  also have "\<dots> = sort_insert sort_order_difference k (sort_key key_missing_as_zero ks) @ ns"
    using assms(2) by (rule sort_insert_before_missing)
  also have "sort_insert sort_order_difference k (sort_key key_missing_as_zero ks) =
      insort_key key_missing_as_zero k (sort_key key_missing_as_zero ks)"
    using Cons.prems by (intro sort_insert_keys) simp_all
  finally show ?case
    by simp
qed

lemma sort_order_addShortnames: "sort_order (addShortnames A e) = sort_order e"
  by (simp add: addShortnames_def split: option.splits)

lemma sort_order_genSkinVariations: "v \<in> set (genSkinVariations b) \<Longrightarrow> sort_order v = None"
  by (auto simp: genSkinVariations_def genSkinVariation_def Let_def split: option.splits)

text \<open>
  The specification reads a missing sort key as 0 (C2), which puts the built-in entry
  before every record with a positive key. The script's comparator yields \<open>NaN\<close> there,
  and the sort takes that as "equal": for the dataset of the one grinning face (key 1)
  the list is the face followed by the built-in entry, which is not ascending when the
  missing key counts as 0. (On two records the comparator is consistent, so the language
  fixes this order.)
\<close>

theorem missing_key_as_zero_counterexample:
  "\<not> sorted (map key_missing_as_zero (fullEmoji sample_shortnames [] [grinning]))"
  by code_simp

text \<open>
  C2 (amended). When every dataset record has a sort key, the sorted list is: the kept
  dataset records in ascending order of their keys (stably), then all skin variations,
  then the built-in entry, the last two groups in the order they were appended. The
  comparator is the difference of the keys where both records have one; a record without
  a key (every variation, and the built-in entry) compares as equal to every record, not as
  key 0, and so keeps its place behind the sorted records: the built-in entry is last.
\<close>

theorem sorted_by_key_missing_last:
  assumes "\<forall>d \<in> set D. sort_order d \<noteq> None"
  shows "fullEmoji A L D =
           sort_key key_missing_as_zero (map (addShortnames A) (filteredEmojiJson L D))
           @ map (addShortnames A) (concat (map genSkinVariations (filteredEmojiJson L D)))
           @ [mattermost]
       \<and> sorted (map key_missing_as_zero
           (sort_key key_missing_as_zero (map (addShortnames A) (filteredEmojiJson L D))))
       \<and> (\<forall>a b x y. sort_order a = Some x \<and> sort_order b = Some y \<longrightarrow>
            SortCompare sort_order_difference a b = x - y)
       \<and> (\<forall>a b. sort_order a = None \<or> sort_order b = None \<longrightarrow>
            SortCompare sort_order_difference a b = 0)
       \<and> sort_order mattermost = None
       \<and> last (fullEmoji A L D) = mattermost"
proof -
  let ?ks = "map (addShortnames A) (filteredEmojiJson L D)"
  let ?ns = "map (addShortnames A) (concat (map genSkinVariations (filteredEmojiJson L D)))
             @ [mattermost]"
  have custom: "sort_order mattermost = None"
    by (simp add: mattermost_def)
  have ks: "\<forall>k \<in> set ?ks. sort_order k \<noteq> None"
    using assms set_filteredEmojiJson [of L D] by (auto simp: sort_order_addShortnames)
  have ns: "\<forall>n \<in> set ?ns. sort_order n = None"
    using custom by (auto simp: sort_order_addShortnames sort_order_genSkinVariations)
  have "unsortedEmoji A L D = ?ks @ ?ns"
    by (simp add: unsortedEmoji_def withSkinVariations_eq)
  then have full: "fullEmoji A L D = sort_key key_missing_as_zero ?ks @ ?ns"
    using array_sort_keys_then_missing [OF ks ns] by (simp add: fullEmoji_def)
  have l: "last (fullEmoji A L D) = mattermost"
    unfolding full by simp
  have s: "sorted (map key_missing_as_zero (sort_key key_missing_as_zero ?ks))"
    by (rule sorted_sort_key)
  show ?thesis
    using full l s custom SortCompare_keys SortCompare_missing by (simp only: simp_thms) blast
qed

text \<open>
  The sample dataset is given out of order; its three records come out by ascending key,
  followed by the two variations and the built-in entry.
\<close>

theorem sorted_by_key_missing_last_witness:
  "map sort_order sample_data = [Some 186, Some 170, Some 1]
   \<and> map short_name (fullEmoji sample_shortnames [] sample_data) =
       [''grinning'', ''wave'', ''+1'', ''wave_light_skin_tone'', ''wave_dark_skin_tone'',
        ''mattermost'']
   \<and> last (fullEmoji sample_shortnames [] sample_data) = mattermost"
proof -
  have keys: "\<forall>d \<in> set sample_data. sort_order d \<noteq> None"
    by code_simp
  have names: "map short_name
      (sort_key key_missing_as_zero (map (addShortnames sample_shortnames) (filteredEmojiJson [] sample_data))
       @ map (addShortnames sample_shortnames)
           (concat (map genSkinVariations (filteredEmojiJson [] sample_data)))
       @ [mattermost]) =
       [''grinning'', ''wave'', ''+1'', ''wave_light_skin_tone'', ''wave_dark_skin_tone'',
        ''mattermost'']"
    by code_simp
  note sorted = sorted_by_key_missing_last [OF keys, of sample_shortnames "[]"]
  have "map short_name (fullEmoji sample_shortnames [] sample_data) =
       [''grinning'', ''wave'', ''+1'', ''wave_light_skin_tone'', ''wave_dark_skin_tone'',
        ''mattermost'']"
    using sorted [THEN conjunct1] names by (simp only:)
  moreover have "map sort_order sample_data = [Some 186, Some 170, Some 1]"
    by code_simp
  ultimately show ?thesis
    using sorted by blast
qed

end
